theory Spec2Isabelle
  imports Main "HOL-Library.Word"
begin

section \<open>DNS-over-QUIC query exchange (doquic.go)\<close>

text \<open>
  The file \<^verbatim>\<open>doquic.go\<close> holds three methods of \<^verbatim>\<open>Transport\<close>:
  \<^verbatim>\<open>sendQueryQUIC\<close>, \<^verbatim>\<open>recvResponseQUIC\<close> and \<^verbatim>\<open>queryQUIC\<close>. All three are
  straight-line code that calls into the Go standard library (\<^verbatim>\<open>net\<close>, \<^verbatim>\<open>io\<close>,
  \<^verbatim>\<open>context\<close>), the DNS message library and the QUIC library. The embedding keeps
  the control flow of the three methods as written and takes what the libraries answer
  as a parameter (the record \<open>env\<close>). Every call that leaves the file is appended to a
  trace, in program order, with the arguments it was given. The embedding describes
  the runs in which every library call returns; a call that blocks for ever has no
  counterpart here.
\<close>

subsection \<open>Data\<close>

type_synonym byte = "8 word"

text \<open>\<^verbatim>\<open>time.Time\<close>; the zero value of a named result is \<open>0\<close>.\<close>
type_synonym time = nat

text \<open>Handles of the objects the libraries hand out.\<close>
type_synonym udp_conn = nat
type_synonym quic_conn = nat
type_synonym stream = nat

text \<open>
  Errors are values. \<open>Canceled\<close> and \<open>DeadlineExceeded\<close> are the two errors of package
  \<^verbatim>\<open>context\<close>; \<open>EOF\<close> and \<open>ErrUnexpectedEOF\<close> are those of package \<^verbatim>\<open>io\<close>; the others
  name the library call that failed. \<open>NilStream\<close> stands for the panic of a method call
  on a nil \<^verbatim>\<open>quic.Stream\<close>.
\<close>
datatype error =
    Canceled
  | DeadlineExceeded
  | EOF
  | ErrUnexpectedEOF
  | ResolveError
  | ListenError
  | SplitError
  | SetDeadlineError
  | PackError
  | DialError
  | OpenStreamError
  | WriteError
  | CloseError
  | ReadError
  | UnpackError
  | NilStream

text \<open>
  \<^verbatim>\<open>context.Context\<close>, as far as the file reads it: \<^verbatim>\<open>ctx.Err()\<close> and
  \<^verbatim>\<open>ctx.Deadline()\<close>. Once \<^verbatim>\<open>Err\<close> is non-nil it returns the same error on every call,
  so the two calls of line 113 and 114 read one value.
\<close>
record Context =
  ctx_Err :: "error option"
  ctx_Deadline :: "time option"

text \<open>\<^verbatim>\<open>ServerAddr\<close>: the file reads the field \<^verbatim>\<open>Address\<close> only.\<close>
record ServerAddr =
  Address :: string

text \<open>
  \<^verbatim>\<open>dns.Msg\<close>: the file writes the field \<^verbatim>\<open>Id\<close> (a \<^verbatim>\<open>uint16\<close>) and touches no other
  field; the other fields are kept together in \<open>Fields\<close>.
\<close>
record Msg =
  Id_msg :: "16 word"
  Fields :: "byte list"

text \<open>\<^verbatim>\<open>net.UDPAddr\<close>.\<close>
record UDPAddr =
  IP :: "byte list"
  Port :: nat

definition IPv4zero :: "byte list" where
  "IPv4zero = [0, 0, 0, 0]"

text \<open>\<^verbatim>\<open>tls.Config\<close>, the two fields the file sets.\<close>
record tls_Config =
  NextProtos :: "string list"
  ServerName :: string

text \<open>\<^verbatim>\<open>quic.Config\<close>: the file builds the empty literal \<^verbatim>\<open>&quic.Config{}\<close> only.\<close>
datatype quic_Config = quic_Config_default

subsection \<open>The libraries\<close>

text \<open>
  What the calls that leave the file answer. A run makes each call at most once, so a
  function of the arguments is enough. The result of \<^verbatim>\<open>io.ReadFull\<close> is computed by
  \<open>ReadFull\<close> below from \<open>StreamIncoming\<close>: the bytes the peer delivers on the stream
  before its receive side ends, and the error that ends it (\<open>EOF\<close> when the peer
  closed its side).
\<close>
record env =
  ResolveUDPAddr :: "string \<Rightarrow> error + UDPAddr"
  ListenUDP :: "UDPAddr \<Rightarrow> error + udp_conn"
  SplitHostPort :: "string \<Rightarrow> error + (string \<times> string)"
  SetDeadline :: "udp_conn \<Rightarrow> time \<Rightarrow> error option"
  Pack :: "Msg \<Rightarrow> error + byte list"
  maybeLogQuery :: "Context \<Rightarrow> ServerAddr \<Rightarrow> byte list \<Rightarrow> time"
  Dial :: "Context \<Rightarrow> udp_conn \<Rightarrow> UDPAddr \<Rightarrow> tls_Config \<Rightarrow> quic_Config \<Rightarrow> error + quic_conn"
  OpenStream :: "quic_conn \<Rightarrow> error + stream"
  StreamWrite :: "stream \<Rightarrow> byte list \<Rightarrow> nat \<times> error option"
  StreamClose :: "stream \<Rightarrow> error option"
  StreamIncoming :: "stream \<Rightarrow> byte list \<times> error"
  Unpack :: "byte list \<Rightarrow> error + Msg"

text \<open>
  The calls a run can make on the libraries. The last two, closing a UDP socket and
  closing a QUIC connection, are part of the libraries' interface.
\<close>
datatype event =
    EvResolveUDPAddr string
  | EvListenUDP UDPAddr "error + udp_conn"
  | EvSplitHostPort string
  | EvSetDeadline udp_conn time
  | EvPack Msg
  | EvLogQuery "byte list"
  | EvDial udp_conn UDPAddr tls_Config quic_Config "error + quic_conn"
  | EvOpenStream quic_conn "error + stream"
  | EvStreamWrite stream "byte list"
  | EvStreamClose stream
  | EvReadFull stream nat
  | EvUnpack "byte list"
  | EvUDPConnClose udp_conn
  | EvConnClose quic_conn

text \<open>
  The state a run works on: the caller's query message, which the file receives as a
  pointer and writes in place, and the trace of library calls made so far.
\<close>
record world =
  query :: Msg
  trace :: "event list"

definition emit :: "event \<Rightarrow> world \<Rightarrow> world" where
  "emit e w = w\<lparr>trace := trace w @ [e]\<rparr>"

definition new_events :: "world \<Rightarrow> world \<Rightarrow> event list" where
  "new_events w w' = drop (length (trace w)) (trace w')"

subsection \<open>sendQueryQUIC\<close>

text \<open>
  The four named results of \<^verbatim>\<open>sendQueryQUIC\<close>. A bare \<^verbatim>\<open>return\<close> hands back their
  current values: a stream that was never opened is nil (\<open>None\<close>), \<open>t0\<close> is the zero time
  until \<^verbatim>\<open>maybeLogQuery\<close> has run, \<open>rawQuery\<close> is nil (\<open>[]\<close>) until \<^verbatim>\<open>Pack\<close> has
  succeeded.
\<close>
record send_result =
  res_stream :: "stream option"
  res_t0 :: time
  res_rawQuery :: "byte list"
  res_err :: "error option"

text \<open>
  The steps in the order of the source: resolve the address (line 27), bind the UDP
  socket (32), split host and port (42), build the TLS and QUIC parameters (46--50),
  set the context's deadline on the socket and discard the result (54--56), write 0
  into the ID of the caller's message (62), serialize it (63), call the logging hook
  (68), dial (70), open the stream (75), write (79, result unused) and close the write
  side (86, result discarded). Each checked call returns on error.
\<close>
definition sendQueryQUIC :: "env \<Rightarrow> Context \<Rightarrow> ServerAddr \<Rightarrow> world \<Rightarrow> world \<times> send_result" where
  "sendQueryQUIC env ctx addr w =
    (let w1 = emit (EvResolveUDPAddr (Address addr)) w in
     case ResolveUDPAddr env (Address addr) of
       Inl e \<Rightarrow> (w1, \<lparr>res_stream = None, res_t0 = 0, res_rawQuery = [], res_err = Some e\<rparr>)
     | Inr udpAddr \<Rightarrow>
    (let laddr = \<lparr>IP = IPv4zero, Port = 0\<rparr>;
         w2 = emit (EvListenUDP laddr (ListenUDP env laddr)) w1 in
     case ListenUDP env laddr of
       Inl e \<Rightarrow> (w2, \<lparr>res_stream = None, res_t0 = 0, res_rawQuery = [], res_err = Some e\<rparr>)
     | Inr udpConn \<Rightarrow>
    (let w3 = emit (EvSplitHostPort (Address addr)) w2 in
     case SplitHostPort env (Address addr) of
       Inl e \<Rightarrow> (w3, \<lparr>res_stream = None, res_t0 = 0, res_rawQuery = [], res_err = Some e\<rparr>)
     | Inr (hostname, port) \<Rightarrow>
    (let tlsConfig = \<lparr>NextProtos = [''doq''], ServerName = hostname\<rparr>;
         quicConfig = quic_Config_default;
         w4 = (case ctx_Deadline ctx of
                 Some deadline \<Rightarrow>
                   (let discarded = SetDeadline env udpConn deadline in
                    emit (EvSetDeadline udpConn deadline) w3)
               | None \<Rightarrow> w3);
         w5 = w4\<lparr>query := (query w4)\<lparr>Id_msg := 0\<rparr>\<rparr>;
         w6 = emit (EvPack (query w5)) w5 in
     case Pack env (query w5) of
       Inl e \<Rightarrow> (w6, \<lparr>res_stream = None, res_t0 = 0, res_rawQuery = [], res_err = Some e\<rparr>)
     | Inr rawQuery \<Rightarrow>
    (let t0 = maybeLogQuery env ctx addr rawQuery;
         w7 = emit (EvLogQuery rawQuery) w6;
         dialed = Dial env ctx udpConn udpAddr tlsConfig quicConfig;
         w8 = emit (EvDial udpConn udpAddr tlsConfig quicConfig dialed) w7 in
     case dialed of
       Inl e \<Rightarrow> (w8, \<lparr>res_stream = None, res_t0 = t0, res_rawQuery = rawQuery, res_err = Some e\<rparr>)
     | Inr quicConn \<Rightarrow>
    (let w9 = emit (EvOpenStream quicConn (OpenStream env quicConn)) w8 in
     case OpenStream env quicConn of
       Inl e \<Rightarrow> (w9, \<lparr>res_stream = None, res_t0 = t0, res_rawQuery = rawQuery, res_err = Some e\<rparr>)
     | Inr stream \<Rightarrow>
    (let unused = StreamWrite env stream rawQuery;
         w10 = emit (EvStreamWrite stream rawQuery) w9;
         discarded = StreamClose env stream;
         w11 = emit (EvStreamClose stream) w10 in
     (w11, \<lparr>res_stream = Some stream, res_t0 = t0, res_rawQuery = rawQuery,
            res_err = None\<rparr>))))))))"

subsection \<open>recvResponseQUIC\<close>

text \<open>
  \<^verbatim>\<open>io.ReadFull(r, buf)\<close> of the Go standard library, on a source that delivers the
  bytes \<open>fst src\<close> and then ends with the error \<open>snd src\<close>: it copies bytes into \<open>buf\<close>
  from the front until \<open>buf\<close> is full or the source ends, and returns the number of
  bytes copied and an error, which is nil exactly when \<open>buf\<close> was filled; an \<open>EOF\<close>
  after at least one byte is reported as \<open>ErrUnexpectedEOF\<close>. The third component is
  the buffer afterwards.
\<close>
definition ReadFull :: "byte list \<times> error \<Rightarrow> byte list \<Rightarrow> nat \<times> error option \<times> byte list" where
  "ReadFull src buf =
    (let n = min (length buf) (length (fst src)) in
     (n,
      if n = length buf then None
      else if snd src = EOF \<and> 0 < n then Some ErrUnexpectedEOF
      else Some (snd src),
      take n (fst src) @ drop n buf))"

text \<open>
  A buffer of 1024 zero bytes, one \<^verbatim>\<open>io.ReadFull\<close> whose two results are dropped (lines
  96--97), then \<^verbatim>\<open>Unpack\<close> on the buffer (100--107).
\<close>
definition recvResponseQUIC ::
  "env \<Rightarrow> Context \<Rightarrow> ServerAddr \<Rightarrow> stream option \<Rightarrow> time \<Rightarrow> byte list \<Rightarrow> world \<Rightarrow> world \<times> (error + Msg)" where
  "recvResponseQUIC env ctx addr stream t0 rawQuery w =
    (let buffer0 = replicate 1024 (0 :: byte) in
     case stream of
       None \<Rightarrow> (w, Inl NilStream)
     | Some s \<Rightarrow>
    (let w1 = emit (EvReadFull s (length buffer0)) w;
         (n, rerr, buffer) = ReadFull (StreamIncoming env s) buffer0;
         w2 = emit (EvUnpack buffer) w1 in
     case Unpack env buffer of
       Inl err \<Rightarrow> (w2, Inl err)
     | Inr resp \<Rightarrow> (w2, Inr resp)))"

subsection \<open>queryQUIC\<close>

text \<open>
  \<^verbatim>\<open>ctx.Err()\<close> first (lines 113--115), then the send (118--121), then the receive (131).
\<close>
definition queryQUIC :: "env \<Rightarrow> Context \<Rightarrow> ServerAddr \<Rightarrow> world \<Rightarrow> world \<times> (error + Msg)" where
  "queryQUIC env ctx addr w =
    (case ctx_Err ctx of
       Some e \<Rightarrow> (w, Inl e)
     | None \<Rightarrow>
    (let (w1, r) = sendQueryQUIC env ctx addr w in
     case res_err r of
       Some err \<Rightarrow> (w1, Inl err)
     | None \<Rightarrow> recvResponseQUIC env ctx addr (res_stream r) (res_t0 r) (res_rawQuery r) w1))"

subsection \<open>Reading a trace\<close>

text \<open>
  The steps that the specification counts as network steps: address resolution, socket
  creation, the dial, and stream I/O (open, write, close of the write side, read).
\<close>
fun is_network_step :: "event \<Rightarrow> bool" where
  "is_network_step (EvResolveUDPAddr a) = True"
| "is_network_step (EvListenUDP la r) = True"
| "is_network_step (EvDial c ua tls qc r) = True"
| "is_network_step (EvOpenStream q r) = True"
| "is_network_step (EvStreamWrite s bs) = True"
| "is_network_step (EvStreamClose s) = True"
| "is_network_step (EvReadFull s n) = True"
| "is_network_step e = False"

fun is_dial :: "event \<Rightarrow> bool" where
  "is_dial (EvDial c ua tls qc r) = True"
| "is_dial e = False"

definition before_dial :: "event list \<Rightarrow> event list" where
  "before_dial evs = takeWhile (\<lambda>e. \<not> is_dial e) evs"

text \<open>
  The deadline in force on the socket \<open>c\<close> after a sequence of calls: a socket that
  \<^verbatim>\<open>net.ListenUDP\<close> has just returned has none, and \<^verbatim>\<open>SetDeadline\<close> sets it.
\<close>
fun deadline_step :: "udp_conn \<Rightarrow> time option \<Rightarrow> event \<Rightarrow> time option" where
  "deadline_step c d (EvListenUDP la (Inr c')) = (if c' = c then None else d)"
| "deadline_step c d (EvSetDeadline c' t) = (if c' = c then Some t else d)"
| "deadline_step c d e = d"

definition socket_deadline :: "udp_conn \<Rightarrow> event list \<Rightarrow> time option" where
  "socket_deadline c evs = foldl (deadline_step c) None evs"

text \<open>The two calls that send on a stream: the write and the close of the write side.\<close>
fun is_stream_send :: "event \<Rightarrow> bool" where
  "is_stream_send (EvStreamWrite s bs) = True"
| "is_stream_send (EvStreamClose s) = True"
| "is_stream_send e = False"

text \<open>A call that releases a UDP socket or a QUIC connection.\<close>
fun is_release :: "event \<Rightarrow> bool" where
  "is_release (EvUDPConnClose c) = True"
| "is_release (EvConnClose q) = True"
| "is_release e = False"

text \<open>
  Every UDP socket and every QUIC connection that the calls in \<open>evs\<close> opened is closed
  by a call in \<open>evs\<close>.
\<close>
fun opened_is_closed :: "event list \<Rightarrow> event \<Rightarrow> bool" where
  "opened_is_closed evs (EvListenUDP la (Inr c)) = (EvUDPConnClose c \<in> set evs)"
| "opened_is_closed evs (EvDial c ua tls qc (Inr q)) = (EvConnClose q \<in> set evs)"
| "opened_is_closed evs e = True"

definition resources_released :: "event list \<Rightarrow> bool" where
  "resources_released evs = list_all (opened_is_closed evs) evs"

text \<open>The two octets of a message ID in network order, as they open a DNS header.\<close>
definition id_bytes :: "16 word \<Rightarrow> byte list" where
  "id_bytes x = [ucast (drop_bit 8 x), ucast x]"

text \<open>
  The response phase as RFC 9250 frames it, after the words of the specification: read
  the 2-octet big-endian length, then exactly that many octets, and hand those octets
  alone to the parser. \<open>framed_payload\<close> is the byte string such a reader parses out of
  what the stream delivers (\<open>None\<close> when the stream ends early).
\<close>
definition framed_payload :: "byte list \<Rightarrow> byte list option" where
  "framed_payload bs =
    (case bs of
       hi # lo # rest \<Rightarrow>
         (let n = unat hi * 256 + unat lo in
          if n \<le> length rest then Some (take n rest) else None)
     | _ \<Rightarrow> None)"

subsection \<open>A stub of the libraries\<close>

text \<open>
  Fixed answers for the library calls, to run the three methods on concrete inputs:
  every call but the parse of the response succeeds, the message codec writes the ID
  in front of the other fields, and the peer answers with a 12-octet DNS header behind
  its 2-octet length.
\<close>
definition stub_Pack :: "Msg \<Rightarrow> error + byte list" where
  "stub_Pack m = Inr (id_bytes (Id_msg m) @ Fields m)"

text \<open>
  The stub parser reads messages that are a bare 12-octet DNS header: the ID from the
  first two octets, the other ten kept as they are. Everything else it rejects: it
  parses no sections. It stands for \<^verbatim>\<open>Unpack\<close> in runs of the stub only; the properties
  below are stated for every \<^verbatim>\<open>Unpack\<close>.
\<close>
definition stub_Unpack :: "byte list \<Rightarrow> error + Msg" where
  "stub_Unpack bs =
    (case bs of
       hi # lo # rest \<Rightarrow>
         (if length rest = 10
          then Inr \<lparr>Id_msg = ucast hi * 256 + ucast lo, Fields = rest\<rparr>
          else Inl UnpackError)
     | _ \<Rightarrow> Inl UnpackError)"

definition stub_SplitHostPort :: "string \<Rightarrow> error + (string \<times> string)" where
  "stub_SplitHostPort a =
    (if CHR '':'' \<in> set a
     then Inr (takeWhile (\<lambda>c. c \<noteq> CHR '':'') a, tl (dropWhile (\<lambda>c. c \<noteq> CHR '':'') a))
     else Inl SplitError)"

definition stub_response :: "byte list" where
  "stub_response = [0, 0, 0x81, 0x80, 0, 0, 0, 0, 0, 0, 0, 0]"

text \<open>
  What a peer that follows RFC 9250 delivers on the stream: the 2-octet length 12, the
  12 octets of the message, then the end of the stream.
\<close>
definition framed_stream :: "stream \<Rightarrow> byte list \<times> error" where
  "framed_stream s = ([0x00, 0x0C] @ stub_response, EOF)"

definition stub_env :: env where
  "stub_env =
    \<lparr>ResolveUDPAddr = (\<lambda>a. Inr \<lparr>IP = [192, 0, 2, 53], Port = 853\<rparr>),
     ListenUDP = (\<lambda>la. Inr 1),
     SplitHostPort = stub_SplitHostPort,
     SetDeadline = (\<lambda>c t. None),
     Pack = stub_Pack,
     maybeLogQuery = (\<lambda>ctx addr bs. 100),
     Dial = (\<lambda>ctx c ua tls qc. Inr 2),
     OpenStream = (\<lambda>q. Inr 3),
     StreamWrite = (\<lambda>s bs. (length bs, None)),
     StreamClose = (\<lambda>s. None),
     StreamIncoming = framed_stream,
     Unpack = stub_Unpack\<rparr>"

definition stub_addr :: ServerAddr where
  "stub_addr = \<lparr>Address = ''dns.example:853''\<rparr>"

definition stub_query :: Msg where
  "stub_query = \<lparr>Id_msg = 0xBEEF, Fields = [1, 0, 0, 1]\<rparr>"

definition stub_world :: world where
  "stub_world = \<lparr>query = stub_query, trace = []\<rparr>"

definition live_ctx :: Context where
  "live_ctx = \<lparr>ctx_Err = None, ctx_Deadline = Some 5000\<rparr>"

definition canceled_ctx :: Context where
  "canceled_ctx = \<lparr>ctx_Err = Some Canceled, ctx_Deadline = None\<rparr>"

text \<open>The stub with a failing \<^verbatim>\<open>Pack\<close>, a failing dial, a failing close of the stream.\<close>
definition env_pack_fails :: env where
  "env_pack_fails = stub_env\<lparr>Pack := \<lambda>m. Inl PackError\<rparr>"

definition env_dial_fails :: env where
  "env_dial_fails = stub_env\<lparr>Dial := \<lambda>ctx c ua tls qc. Inl DialError\<rparr>"

definition env_close_fails :: env where
  "env_close_fails = stub_env\<lparr>StreamClose := \<lambda>s. Some CloseError\<rparr>"

section \<open>Properties\<close>

subsection \<open>The three methods, path by path\<close>

text \<open>What a send does on the path where every checked call succeeds.\<close>
lemma sendQueryQUIC_ok:
  assumes "ResolveUDPAddr env (Address addr) = Inr ua"
    and "ListenUDP env \<lparr>IP = IPv4zero, Port = 0\<rparr> = Inr c"
    and "SplitHostPort env (Address addr) = Inr (h, p)"
    and "Pack env ((query w)\<lparr>Id_msg := 0\<rparr>) = Inr raw"
    and "Dial env ctx c ua \<lparr>NextProtos = [''doq''], ServerName = h\<rparr> quic_Config_default = Inr q"
    and "OpenStream env q = Inr s"
  shows "sendQueryQUIC env ctx addr w =
    (\<lparr>query = (query w)\<lparr>Id_msg := 0\<rparr>,
      trace = trace w @
        [EvResolveUDPAddr (Address addr),
         EvListenUDP \<lparr>IP = IPv4zero, Port = 0\<rparr> (Inr c),
         EvSplitHostPort (Address addr)] @
        (case ctx_Deadline ctx of Some d \<Rightarrow> [EvSetDeadline c d] | None \<Rightarrow> []) @
        [EvPack ((query w)\<lparr>Id_msg := 0\<rparr>),
         EvLogQuery raw,
         EvDial c ua \<lparr>NextProtos = [''doq''], ServerName = h\<rparr> quic_Config_default (Inr q),
         EvOpenStream q (Inr s),
         EvStreamWrite s raw,
         EvStreamClose s]\<rparr>,
     \<lparr>res_stream = Some s, res_t0 = maybeLogQuery env ctx addr raw, res_rawQuery = raw,
       res_err = None\<rparr>)"
  using assms
  by (simp add: sendQueryQUIC_def Let_def emit_def split: option.splits)


text \<open>A send only ever appends to the trace.\<close>
lemma sendQueryQUIC_trace:
  "trace (fst (sendQueryQUIC env ctx addr w)) =
   trace w @ new_events w (fst (sendQueryQUIC env ctx addr w))"
  by (simp add: sendQueryQUIC_def Let_def emit_def new_events_def
      split: sum.splits option.splits prod.splits)

text \<open>A send that reports no error hands back a stream.\<close>
lemma sendQueryQUIC_stream:
  "res_err (snd (sendQueryQUIC env ctx addr w)) = None \<Longrightarrow>
   \<exists>s. res_stream (snd (sendQueryQUIC env ctx addr w)) = Some s"
  by (auto simp: sendQueryQUIC_def Let_def emit_def split: sum.splits option.splits prod.splits)

text \<open>The receive phase in closed form.\<close>
lemma recvResponseQUIC_closed:
  "recvResponseQUIC env ctx addr (Some s) t0 raw w =
   (w\<lparr>trace := trace w @
        [EvReadFull s 1024,
         EvUnpack (take 1024 (fst (StreamIncoming env s)) @
                   replicate (1024 - length (fst (StreamIncoming env s))) 0)]\<rparr>,
    Unpack env (take 1024 (fst (StreamIncoming env s)) @
                replicate (1024 - length (fst (StreamIncoming env s))) 0))"
  by (simp add: recvResponseQUIC_def ReadFull_def Let_def emit_def min_def split: sum.splits)


lemma recvResponseQUIC_query:
  "query (fst (recvResponseQUIC env ctx addr st t0 raw w)) = query w"
  by (simp add: recvResponseQUIC_def Let_def emit_def split: option.splits sum.splits prod.splits)

lemma id_bytes_zero: "id_bytes 0 = [0, 0]"
  by (simp add: id_bytes_def)

text \<open>A query only ever appends to the trace.\<close>
lemma queryQUIC_events:
  "new_events w (fst (queryQUIC env ctx addr w)) =
    (case ctx_Err ctx of
       Some e \<Rightarrow> []
     | None \<Rightarrow>
         new_events w (fst (sendQueryQUIC env ctx addr w)) @
         (case res_err (snd (sendQueryQUIC env ctx addr w)) of
            Some e \<Rightarrow> []
          | None \<Rightarrow>
              (case res_stream (snd (sendQueryQUIC env ctx addr w)) of
                 None \<Rightarrow> []
               | Some s \<Rightarrow>
                   [EvReadFull s 1024,
                    EvUnpack (take 1024 (fst (StreamIncoming env s)) @
                              replicate (1024 - length (fst (StreamIncoming env s))) 0)])))"
proof (cases "ctx_Err ctx")
  case (Some e)
  then show ?thesis
    by (simp add: queryQUIC_def new_events_def)
next
  case None
  obtain w1 r where sr: "sendQueryQUIC env ctx addr w = (w1, r)"
    by (cases "sendQueryQUIC env ctx addr w")
  from sendQueryQUIC_trace [of env ctx addr w] sr
  have tr: "trace w1 = trace w @ new_events w w1"
    by simp
  show ?thesis
  proof (cases "res_err r")
    case (Some e)
    with None sr show ?thesis
      by (simp add: queryQUIC_def)
  next
    case noerr: None
    show ?thesis
    proof (cases "res_stream r")
      case None
      with \<open>ctx_Err ctx = None\<close> noerr sr tr show ?thesis
        by (simp add: queryQUIC_def recvResponseQUIC_def)
    next
      case (Some s)
      have "length (trace w) \<le> length (trace w1)"
        by (subst tr) simp
      then have "new_events w (w1\<lparr>trace := trace w1 @ evs\<rparr>) = new_events w w1 @ evs" for evs
        by (simp add: new_events_def)
      with \<open>ctx_Err ctx = None\<close> noerr sr Some show ?thesis
        by (simp add: queryQUIC_def recvResponseQUIC_closed)
    qed
  qed
qed

lemma sendQueryQUIC_no_release:
  "filter is_release (new_events w (fst (sendQueryQUIC env ctx addr w))) = []"
  by (simp add: sendQueryQUIC_def Let_def emit_def new_events_def
      split: sum.splits option.splits prod.splits)

lemma sendQueryQUIC_listen_event:
  assumes "ResolveUDPAddr env (Address addr) = Inr ua"
    and "ListenUDP env \<lparr>IP = IPv4zero, Port = 0\<rparr> = Inr c"
  shows "EvListenUDP \<lparr>IP = IPv4zero, Port = 0\<rparr> (Inr c)
           \<in> set (new_events w (fst (sendQueryQUIC env ctx addr w)))"
  using assms
  by (auto simp: sendQueryQUIC_def Let_def emit_def new_events_def
      split: sum.splits option.splits prod.splits)

lemma not_released:
  assumes "filter is_release evs = []"
    and "EvListenUDP la (Inr c) \<in> set evs"
  shows "\<not> resources_released evs"
proof
  assume "resources_released evs"
  with assms(2) have "EvUDPConnClose c \<in> set evs"
    by (auto simp: resources_released_def list_all_iff)
  then have "EvUDPConnClose c \<in> set (filter is_release evs)"
    by simp
  with assms(1) show False
    by simp
qed

subsection \<open>The stub, call by call\<close>

lemma stub_resolve:
  "ResolveUDPAddr stub_env (Address stub_addr) = Inr \<lparr>IP = [192, 0, 2, 53], Port = 853\<rparr>"
  "ResolveUDPAddr env_pack_fails (Address stub_addr) = Inr \<lparr>IP = [192, 0, 2, 53], Port = 853\<rparr>"
  "ResolveUDPAddr env_dial_fails (Address stub_addr) = Inr \<lparr>IP = [192, 0, 2, 53], Port = 853\<rparr>"
  by (simp_all add: stub_env_def env_pack_fails_def env_dial_fails_def)

lemma stub_listen:
  "ListenUDP stub_env \<lparr>IP = IPv4zero, Port = 0\<rparr> = Inr 1"
  "ListenUDP env_pack_fails \<lparr>IP = IPv4zero, Port = 0\<rparr> = Inr 1"
  "ListenUDP env_dial_fails \<lparr>IP = IPv4zero, Port = 0\<rparr> = Inr 1"
  by (simp_all add: stub_env_def env_pack_fails_def env_dial_fails_def)

lemma stub_split:
  "SplitHostPort stub_env (Address stub_addr) = Inr (''dns.example'', ''853'')"
  "SplitHostPort env_pack_fails (Address stub_addr) = Inr (''dns.example'', ''853'')"
  "SplitHostPort env_dial_fails (Address stub_addr) = Inr (''dns.example'', ''853'')"
  by (simp_all add: stub_env_def env_pack_fails_def env_dial_fails_def stub_addr_def
      stub_SplitHostPort_def)

lemma stub_pack:
  "Pack stub_env ((query stub_world)\<lparr>Id_msg := 0\<rparr>) = Inr [0, 0, 1, 0, 0, 1]"
  "Pack env_pack_fails ((query stub_world)\<lparr>Id_msg := 0\<rparr>) = Inl PackError"
  by (simp_all add: stub_env_def env_pack_fails_def env_dial_fails_def stub_Pack_def
      stub_world_def stub_query_def id_bytes_def)

lemma stub_dial:
  "Dial stub_env live_ctx 1 \<lparr>IP = [192, 0, 2, 53], Port = 853\<rparr>
     \<lparr>NextProtos = [''doq''], ServerName = ''dns.example''\<rparr> quic_Config_default = Inr 2"
  by (simp add: stub_env_def)

lemma stub_open: "OpenStream stub_env 2 = Inr 3"
  by (simp add: stub_env_def)

lemma stub_incoming: "fst (StreamIncoming stub_env 3) = [0x00, 0x0C] @ stub_response"
  by (simp add: stub_env_def framed_stream_def)

lemma stub_buffer:
  "take 1024 ([0x00, 0x0C] @ stub_response) @
     replicate (1024 - length ([0x00, 0x0C] @ stub_response)) 0 =
   [0x00, 0x0C] @ stub_response @ replicate 1010 0"
  by (simp add: stub_response_def)

text \<open>The whole run of the stub: what \<open>sendQueryQUIC\<close> returns and the calls of a query.\<close>
lemma stub_send:
  "sendQueryQUIC stub_env live_ctx stub_addr stub_world =
    (\<lparr>query = \<lparr>Id_msg = 0, Fields = [1, 0, 0, 1]\<rparr>,
      trace =
        [EvResolveUDPAddr ''dns.example:853'',
         EvListenUDP \<lparr>IP = [0, 0, 0, 0], Port = 0\<rparr> (Inr 1),
         EvSplitHostPort ''dns.example:853'',
         EvSetDeadline 1 5000,
         EvPack \<lparr>Id_msg = 0, Fields = [1, 0, 0, 1]\<rparr>,
         EvLogQuery [0, 0, 1, 0, 0, 1],
         EvDial 1 \<lparr>IP = [192, 0, 2, 53], Port = 853\<rparr>
           \<lparr>NextProtos = [''doq''], ServerName = ''dns.example''\<rparr> quic_Config_default (Inr 2),
         EvOpenStream 2 (Inr 3),
         EvStreamWrite 3 [0, 0, 1, 0, 0, 1],
         EvStreamClose 3]\<rparr>,
     \<lparr>res_stream = Some 3, res_t0 = 100, res_rawQuery = [0, 0, 1, 0, 0, 1], res_err = None\<rparr>)"
  unfolding sendQueryQUIC_ok [OF stub_resolve(1) stub_listen(1) stub_split(1) stub_pack(1)
      stub_dial stub_open]
  by (simp add: stub_env_def stub_world_def stub_query_def stub_addr_def live_ctx_def IPv4zero_def)

lemma stub_query_events:
  "new_events stub_world (fst (queryQUIC stub_env live_ctx stub_addr stub_world)) =
    [EvResolveUDPAddr ''dns.example:853'',
     EvListenUDP \<lparr>IP = [0, 0, 0, 0], Port = 0\<rparr> (Inr 1),
     EvSplitHostPort ''dns.example:853'',
     EvSetDeadline 1 5000,
     EvPack \<lparr>Id_msg = 0, Fields = [1, 0, 0, 1]\<rparr>,
     EvLogQuery [0, 0, 1, 0, 0, 1],
     EvDial 1 \<lparr>IP = [192, 0, 2, 53], Port = 853\<rparr>
       \<lparr>NextProtos = [''doq''], ServerName = ''dns.example''\<rparr> quic_Config_default (Inr 2),
     EvOpenStream 2 (Inr 3),
     EvStreamWrite 3 [0, 0, 1, 0, 0, 1],
     EvStreamClose 3,
     EvReadFull 3 1024,
     EvUnpack ([0x00, 0x0C] @ stub_response @ replicate 1010 0)]"
  unfolding queryQUIC_events stub_send
  by (simp add: stub_incoming new_events_def live_ctx_def stub_world_def stub_response_def)

subsection \<open>Properties of the exchange\<close>

text \<open>
  C1 on a framed response. The peer sends a 12-octet DNS message behind its 2-octet
  length \<open>00 0C\<close> and closes. A reader that follows the framing reads 2 octets, then 12,
  and parses those 12. \<open>recvResponseQUIC\<close>, with any libraries around it, makes a single
  read of 1024 bytes and hands to \<^verbatim>\<open>Unpack\<close> the whole buffer of 1024 bytes: the length
  prefix, the message and 1010 zeros. Its result is what \<^verbatim>\<open>Unpack\<close> makes of that
  buffer, in which the length prefix sits where the parser looks for the ID and every
  field of the message is two octets further on.
\<close>
theorem C1_fixed_buffer_parsed_whole:
  "framed_stream s = ([0x00, 0x0C] @ stub_response, EOF) \<and>
   framed_payload (fst (framed_stream s)) = Some stub_response \<and>
   recvResponseQUIC (env\<lparr>StreamIncoming := framed_stream\<rparr>) ctx addr (Some s) t0 raw w =
     (w\<lparr>trace := trace w @
          [EvReadFull s 1024, EvUnpack ([0x00, 0x0C] @ stub_response @ replicate 1010 0)]\<rparr>,
      Unpack env ([0x00, 0x0C] @ stub_response @ replicate 1010 0)) \<and>
   length ([0x00, 0x0C] @ stub_response @ replicate 1010 (0 :: byte)) = 1024 \<and>
   length stub_response = 12 \<and>
   take 2 ([0x00, 0x0C] @ stub_response @ replicate 1010 0) = [0x00, 0x0C]"
proof -
  have fr: "framed_payload (fst (framed_stream s)) = Some stub_response"
    by (simp add: framed_stream_def framed_payload_def stub_response_def)
  have inc: "fst (StreamIncoming (env\<lparr>StreamIncoming := framed_stream\<rparr>) s) =
      [0x00, 0x0C] @ stub_response"
    by (simp add: framed_stream_def)
  have run: "recvResponseQUIC (env\<lparr>StreamIncoming := framed_stream\<rparr>) ctx addr (Some s) t0 raw w =
     (w\<lparr>trace := trace w @
          [EvReadFull s 1024, EvUnpack ([0x00, 0x0C] @ stub_response @ replicate 1010 0)]\<rparr>,
      Unpack env ([0x00, 0x0C] @ stub_response @ replicate 1010 0))"
    unfolding recvResponseQUIC_closed inc stub_buffer
    by simp
  from fr run show ?thesis
    by (simp add: framed_stream_def stub_response_def)
qed

text \<open>
  C2. Once resolution, socket binding and split have succeeded, the send writes 0 into
  the ID of the caller's own message, whatever ID the caller supplied, and then calls
  \<^verbatim>\<open>Pack\<close> on that message: the caller's message comes back with ID 0, and the message
  that \<^verbatim>\<open>Pack\<close> was given is the caller's message as it then is. The bytes handed to
  the logging hook, written to the stream and returned as \<open>rawQuery\<close> are the bytes that
  \<^verbatim>\<open>Pack\<close> returned for it. So for a \<^verbatim>\<open>Pack\<close> that puts the two octets of the ID in
  front, as the DNS wire format has it, those bytes start with two zero octets.
\<close>
theorem C2_query_id_zero_on_wire:
  assumes wire: "\<And>m bs. Pack env m = Inr bs \<Longrightarrow> take 2 bs = id_bytes (Id_msg m)"
  shows "(\<forall>m. EvPack m \<in> set (new_events w (fst (sendQueryQUIC env ctx addr w))) \<longrightarrow>
             m = (query w)\<lparr>Id_msg := 0\<rparr>) \<and>
         (\<forall>s bs. EvStreamWrite s bs \<in> set (new_events w (fst (sendQueryQUIC env ctx addr w))) \<longrightarrow>
             Pack env ((query w)\<lparr>Id_msg := 0\<rparr>) = Inr bs \<and> take 2 bs = [0, 0]) \<and>
         (\<forall>bs. EvLogQuery bs \<in> set (new_events w (fst (sendQueryQUIC env ctx addr w))) \<longrightarrow>
             Pack env ((query w)\<lparr>Id_msg := 0\<rparr>) = Inr bs \<and> take 2 bs = [0, 0]) \<and>
         (res_err (snd (sendQueryQUIC env ctx addr w)) = None \<longrightarrow>
             Pack env ((query w)\<lparr>Id_msg := 0\<rparr>) = Inr (res_rawQuery (snd (sendQueryQUIC env ctx addr w))) \<and>
             take 2 (res_rawQuery (snd (sendQueryQUIC env ctx addr w))) = [0, 0]) \<and>
         (\<forall>m. EvPack m \<in> set (new_events w (fst (sendQueryQUIC env ctx addr w))) \<longrightarrow>
             query (fst (sendQueryQUIC env ctx addr w)) = m \<and>
             Id_msg (query (fst (sendQueryQUIC env ctx addr w))) = 0) \<and>
         (\<forall>ua c hp.
             ResolveUDPAddr env (Address addr) = Inr ua \<and>
             ListenUDP env \<lparr>IP = IPv4zero, Port = 0\<rparr> = Inr c \<and>
             SplitHostPort env (Address addr) = Inr hp \<longrightarrow>
             query (fst (sendQueryQUIC env ctx addr w)) = (query w)\<lparr>Id_msg := 0\<rparr> \<and>
             EvPack (query (fst (sendQueryQUIC env ctx addr w)))
               \<in> set (new_events w (fst (sendQueryQUIC env ctx addr w)))) \<and>
         (\<forall>s. res_stream (snd (sendQueryQUIC env ctx addr w)) = Some s \<longrightarrow>
             Id_msg (query (fst (sendQueryQUIC env ctx addr w))) = 0 \<and>
             Pack env (query (fst (sendQueryQUIC env ctx addr w)))
               = Inr (res_rawQuery (snd (sendQueryQUIC env ctx addr w))) \<and>
             EvStreamWrite s (res_rawQuery (snd (sendQueryQUIC env ctx addr w)))
               \<in> set (new_events w (fst (sendQueryQUIC env ctx addr w))))"
proof -
  have z: "take 2 bs = [0, 0]" if "Pack env ((query w)\<lparr>Id_msg := 0\<rparr>) = Inr bs" for bs
    using wire [OF that] by (simp add: id_bytes_zero)
  have a: "(\<forall>m. EvPack m \<in> set (new_events w (fst (sendQueryQUIC env ctx addr w))) \<longrightarrow>
             m = (query w)\<lparr>Id_msg := 0\<rparr>) \<and>
         (\<forall>s bs. EvStreamWrite s bs \<in> set (new_events w (fst (sendQueryQUIC env ctx addr w))) \<longrightarrow>
             Pack env ((query w)\<lparr>Id_msg := 0\<rparr>) = Inr bs \<and> take 2 bs = [0, 0]) \<and>
         (\<forall>bs. EvLogQuery bs \<in> set (new_events w (fst (sendQueryQUIC env ctx addr w))) \<longrightarrow>
             Pack env ((query w)\<lparr>Id_msg := 0\<rparr>) = Inr bs \<and> take 2 bs = [0, 0]) \<and>
         (res_err (snd (sendQueryQUIC env ctx addr w)) = None \<longrightarrow>
             Pack env ((query w)\<lparr>Id_msg := 0\<rparr>) = Inr (res_rawQuery (snd (sendQueryQUIC env ctx addr w))) \<and>
             take 2 (res_rawQuery (snd (sendQueryQUIC env ctx addr w))) = [0, 0])"
    using z
    by (auto simp: sendQueryQUIC_def Let_def emit_def new_events_def
        split: sum.splits option.splits prod.splits)
  have b: "\<forall>m. EvPack m \<in> set (new_events w (fst (sendQueryQUIC env ctx addr w))) \<longrightarrow>
             query (fst (sendQueryQUIC env ctx addr w)) = m \<and>
             Id_msg (query (fst (sendQueryQUIC env ctx addr w))) = 0"
    by (auto simp: sendQueryQUIC_def Let_def emit_def new_events_def
        split: sum.splits option.splits prod.splits)
  have c: "\<forall>ua c hp.
             ResolveUDPAddr env (Address addr) = Inr ua \<and>
             ListenUDP env \<lparr>IP = IPv4zero, Port = 0\<rparr> = Inr c \<and>
             SplitHostPort env (Address addr) = Inr hp \<longrightarrow>
             query (fst (sendQueryQUIC env ctx addr w)) = (query w)\<lparr>Id_msg := 0\<rparr> \<and>
             EvPack (query (fst (sendQueryQUIC env ctx addr w)))
               \<in> set (new_events w (fst (sendQueryQUIC env ctx addr w)))"
    by (auto simp: sendQueryQUIC_def Let_def emit_def new_events_def
        split: sum.splits option.splits prod.splits)
  have d: "\<forall>s. res_stream (snd (sendQueryQUIC env ctx addr w)) = Some s \<longrightarrow>
             Id_msg (query (fst (sendQueryQUIC env ctx addr w))) = 0 \<and>
             Pack env (query (fst (sendQueryQUIC env ctx addr w)))
               = Inr (res_rawQuery (snd (sendQueryQUIC env ctx addr w))) \<and>
             EvStreamWrite s (res_rawQuery (snd (sendQueryQUIC env ctx addr w)))
               \<in> set (new_events w (fst (sendQueryQUIC env ctx addr w)))"
    by (auto simp: sendQueryQUIC_def Let_def emit_def new_events_def
        split: sum.splits option.splits prod.splits)
  from a b c d show ?thesis
    by (intro conjI) blast+
qed

theorem C2_query_id_zero_on_wire_witness:
  "Id_msg (query stub_world) = 0xBEEF \<and>
   query (fst (sendQueryQUIC stub_env live_ctx stub_addr stub_world))
     = \<lparr>Id_msg = 0, Fields = [1, 0, 0, 1]\<rparr> \<and>
   EvPack \<lparr>Id_msg = 0, Fields = [1, 0, 0, 1]\<rparr>
     \<in> set (new_events stub_world (fst (sendQueryQUIC stub_env live_ctx stub_addr stub_world))) \<and>
   EvStreamWrite 3 [0, 0, 1, 0, 0, 1]
     \<in> set (new_events stub_world (fst (sendQueryQUIC stub_env live_ctx stub_addr stub_world))) \<and>
   Pack stub_env ((query stub_world)\<lparr>Id_msg := 0\<rparr>) = Inr [0, 0, 1, 0, 0, 1] \<and>
   res_rawQuery (snd (sendQueryQUIC stub_env live_ctx stub_addr stub_world)) = [0, 0, 1, 0, 0, 1] \<and>
   take 2 (res_rawQuery (snd (sendQueryQUIC stub_env live_ctx stub_addr stub_world))) = [0, 0]"
proof -
  have wire: "\<And>m bs. Pack stub_env m = Inr bs \<Longrightarrow> take 2 bs = id_bytes (Id_msg m)"
    by (auto simp: stub_env_def stub_Pack_def id_bytes_def)
  have ok: "res_err (snd (sendQueryQUIC stub_env live_ctx stub_addr stub_world)) = None"
    by (simp add: stub_send)
  note inst = C2_query_id_zero_on_wire [of stub_env stub_world live_ctx stub_addr, OF wire]
  from inst ok
  have t: "take 2 (res_rawQuery (snd (sendQueryQUIC stub_env live_ctx stub_addr stub_world))) = [0, 0]"
    by blast
  from inst stub_resolve(1) stub_listen(1) stub_split(1)
  have q: "query (fst (sendQueryQUIC stub_env live_ctx stub_addr stub_world))
      = (query stub_world)\<lparr>Id_msg := 0\<rparr>"
    by blast
  from t q show ?thesis
    by (simp add: stub_send new_events_def stub_pack) (simp add: stub_world_def stub_query_def)
qed

text \<open>
  C3. A call of \<open>queryQUIC\<close> with a context that is already canceled or expired returns
  that context's error at once: the state is returned as it was given, so no library
  call of any kind (address resolution, socket creation, dial, stream I/O) was made and
  the query message is untouched.
\<close>
theorem C3_done_context_fails_fast:
  "ctx_Err ctx = Some e \<Longrightarrow> queryQUIC env ctx addr w = (w, Inl e)"
  by (simp add: queryQUIC_def)

theorem C3_done_context_fails_fast_witness:
  "ctx_Err canceled_ctx = Some Canceled \<and>
   queryQUIC stub_env canceled_ctx stub_addr stub_world = (stub_world, Inl Canceled)"
proof -
  have c: "ctx_Err canceled_ctx = Some Canceled"
    by (simp add: canceled_ctx_def)
  from c C3_done_context_fails_fast [OF c, of stub_env stub_addr stub_world]
  show ?thesis
    by (rule conjI)
qed

text \<open>
  C4, as stated, fails: the error that closing the write side of the stream returns is
  not reported. Here the close fails with \<open>CloseError\<close>, and the send returns the stream
  and a nil error.
\<close>
theorem C4_counterexample:
  "StreamClose env_close_fails 3 = Some CloseError \<and>
   EvStreamClose 3
     \<in> set (new_events stub_world
          (fst (sendQueryQUIC env_close_fails live_ctx stub_addr stub_world))) \<and>
   snd (sendQueryQUIC env_close_fails live_ctx stub_addr stub_world)
     = \<lparr>res_stream = Some 3, res_t0 = 100, res_rawQuery = [0, 0, 1, 0, 0, 1], res_err = None\<rparr>"
  by (simp add: sendQueryQUIC_def Let_def emit_def new_events_def env_close_fails_def
      stub_env_def stub_Pack_def stub_SplitHostPort_def stub_addr_def stub_world_def
      stub_query_def live_ctx_def id_bytes_def)

text \<open>
  C4, amended. A send that has opened its stream writes the serialized bytes to it once
  and then closes its write side once, with no retry; the error that the close returns
  is discarded, so whatever the close answers the send returns the stream and a nil
  error.
\<close>
theorem C4_close_error_discarded:
  assumes "ResolveUDPAddr env (Address addr) = Inr ua"
    and "ListenUDP env \<lparr>IP = IPv4zero, Port = 0\<rparr> = Inr c"
    and "SplitHostPort env (Address addr) = Inr (h, p)"
    and "Pack env ((query w)\<lparr>Id_msg := 0\<rparr>) = Inr raw"
    and "Dial env ctx c ua \<lparr>NextProtos = [''doq''], ServerName = h\<rparr> quic_Config_default = Inr q"
    and "OpenStream env q = Inr s"
  shows "snd (sendQueryQUIC (env\<lparr>StreamClose := cl\<rparr>) ctx addr w) =
           \<lparr>res_stream = Some s, res_t0 = maybeLogQuery env ctx addr raw, res_rawQuery = raw,
             res_err = None\<rparr> \<and>
         filter is_stream_send
           (new_events w (fst (sendQueryQUIC (env\<lparr>StreamClose := cl\<rparr>) ctx addr w))) =
           [EvStreamWrite s raw, EvStreamClose s]"
proof -
  have "sendQueryQUIC (env\<lparr>StreamClose := cl\<rparr>) ctx addr w =
    (\<lparr>query = (query w)\<lparr>Id_msg := 0\<rparr>,
      trace = trace w @
        [EvResolveUDPAddr (Address addr),
         EvListenUDP \<lparr>IP = IPv4zero, Port = 0\<rparr> (Inr c),
         EvSplitHostPort (Address addr)] @
        (case ctx_Deadline ctx of Some d \<Rightarrow> [EvSetDeadline c d] | None \<Rightarrow> []) @
        [EvPack ((query w)\<lparr>Id_msg := 0\<rparr>),
         EvLogQuery raw,
         EvDial c ua \<lparr>NextProtos = [''doq''], ServerName = h\<rparr> quic_Config_default (Inr q),
         EvOpenStream q (Inr s),
         EvStreamWrite s raw,
         EvStreamClose s]\<rparr>,
     \<lparr>res_stream = Some s, res_t0 = maybeLogQuery (env\<lparr>StreamClose := cl\<rparr>) ctx addr raw,
       res_rawQuery = raw, res_err = None\<rparr>)"
    by (rule sendQueryQUIC_ok) (simp_all add: assms)
  then show ?thesis
    by (simp add: new_events_def split: option.splits)
qed

theorem C4_close_error_discarded_witness:
  "StreamClose env_close_fails 3 = Some CloseError \<and>
   snd (sendQueryQUIC env_close_fails live_ctx stub_addr stub_world)
     = \<lparr>res_stream = Some 3, res_t0 = 100, res_rawQuery = [0, 0, 1, 0, 0, 1], res_err = None\<rparr> \<and>
   filter is_stream_send
     (new_events stub_world (fst (sendQueryQUIC env_close_fails live_ctx stub_addr stub_world)))
     = [EvStreamWrite 3 [0, 0, 1, 0, 0, 1], EvStreamClose 3]"
proof -
  have t: "maybeLogQuery stub_env live_ctx stub_addr [0, 0, 1, 0, 0, 1] = 100"
    by (simp add: stub_env_def)
  have cl: "StreamClose env_close_fails 3 = Some CloseError"
    by (simp add: env_close_fails_def)
  from cl C4_close_error_discarded [OF stub_resolve(1) stub_listen(1) stub_split(1) stub_pack(1)
      stub_dial stub_open, of "StreamClose env_close_fails"]
  show ?thesis
    by (simp add: t env_close_fails_def)
qed

text \<open>
  C5. Every dial that a send issues is given TLS parameters whose ALPN list is the single
  token \<open>doq\<close> and whose server name is the host that \<^verbatim>\<open>net.SplitHostPort\<close> returned for
  the server address; and a send whose resolution, socket, split and serialization
  succeeded does issue that dial.
\<close>
theorem C5_tls_parameters:
  "(\<forall>c ua tls qc r.
      EvDial c ua tls qc r \<in> set (new_events w (fst (sendQueryQUIC env ctx addr w))) \<longrightarrow>
      NextProtos tls = [''doq''] \<and>
      (\<exists>port. SplitHostPort env (Address addr) = Inr (ServerName tls, port)) \<and>
      r = Dial env ctx c ua tls qc) \<and>
   (\<forall>ua c h p raw.
      ResolveUDPAddr env (Address addr) = Inr ua \<and>
      ListenUDP env \<lparr>IP = IPv4zero, Port = 0\<rparr> = Inr c \<and>
      SplitHostPort env (Address addr) = Inr (h, p) \<and>
      Pack env ((query w)\<lparr>Id_msg := 0\<rparr>) = Inr raw \<longrightarrow>
      EvDial c ua \<lparr>NextProtos = [''doq''], ServerName = h\<rparr> quic_Config_default
        (Dial env ctx c ua \<lparr>NextProtos = [''doq''], ServerName = h\<rparr> quic_Config_default)
        \<in> set (new_events w (fst (sendQueryQUIC env ctx addr w))))"
  by (auto simp: sendQueryQUIC_def Let_def emit_def new_events_def
      split: sum.splits option.splits prod.splits)

theorem C5_tls_parameters_witness:
  "Address stub_addr = ''dns.example:853'' \<and>
   SplitHostPort stub_env (Address stub_addr) = Inr (''dns.example'', ''853'') \<and>
   EvDial 1 \<lparr>IP = [192, 0, 2, 53], Port = 853\<rparr>
      \<lparr>NextProtos = [''doq''], ServerName = ''dns.example''\<rparr> quic_Config_default (Inr 2)
     \<in> set (new_events stub_world (fst (sendQueryQUIC stub_env live_ctx stub_addr stub_world)))"
proof -
  from C5_tls_parameters [of stub_world stub_env live_ctx stub_addr]
    stub_resolve(1) stub_listen(1) stub_split(1) stub_pack(1)
  have "EvDial 1 \<lparr>IP = [192, 0, 2, 53], Port = 853\<rparr>
      \<lparr>NextProtos = [''doq''], ServerName = ''dns.example''\<rparr> quic_Config_default
      (Dial stub_env live_ctx 1 \<lparr>IP = [192, 0, 2, 53], Port = 853\<rparr>
      \<lparr>NextProtos = [''doq''], ServerName = ''dns.example''\<rparr> quic_Config_default)
     \<in> set (new_events stub_world (fst (sendQueryQUIC stub_env live_ctx stub_addr stub_world)))"
    by blast
  with stub_dial stub_split(1) show ?thesis
    by (simp add: stub_addr_def)
qed

text \<open>
  C6. In a send whose resolution, socket binding and split succeeded, the socket that
  \<^verbatim>\<open>net.ListenUDP\<close> returned carries, when the dial is issued (and at the end of a send
  that never dials), exactly the deadline of the caller's context: that deadline when
  the context has one, none when it has none. \<^verbatim>\<open>SetDeadline\<close> is called on that socket
  with that deadline and in no other way.
\<close>
theorem C6_context_deadline_on_socket:
  assumes "ResolveUDPAddr env (Address addr) = Inr ua"
    and "ListenUDP env \<lparr>IP = IPv4zero, Port = 0\<rparr> = Inr c"
    and "SplitHostPort env (Address addr) = Inr hp"
  shows "EvListenUDP \<lparr>IP = IPv4zero, Port = 0\<rparr> (Inr c)
           \<in> set (before_dial (new_events w (fst (sendQueryQUIC env ctx addr w)))) \<and>
         socket_deadline c (before_dial (new_events w (fst (sendQueryQUIC env ctx addr w))))
           = ctx_Deadline ctx \<and>
         (\<forall>c' d. EvSetDeadline c' d \<in> set (new_events w (fst (sendQueryQUIC env ctx addr w)))
            \<longleftrightarrow> c' = c \<and> ctx_Deadline ctx = Some d)"
  using assms
  by (auto simp: sendQueryQUIC_def Let_def emit_def new_events_def before_dial_def
      socket_deadline_def split: sum.splits option.splits prod.splits)

theorem C6_context_deadline_on_socket_witness:
  "ctx_Deadline live_ctx = Some 5000 \<and>
   before_dial (new_events stub_world (fst (sendQueryQUIC stub_env live_ctx stub_addr stub_world)))
     = [EvResolveUDPAddr ''dns.example:853'', EvListenUDP \<lparr>IP = [0, 0, 0, 0], Port = 0\<rparr> (Inr 1),
        EvSplitHostPort ''dns.example:853'', EvSetDeadline 1 5000,
        EvPack \<lparr>Id_msg = 0, Fields = [1, 0, 0, 1]\<rparr>, EvLogQuery [0, 0, 1, 0, 0, 1]] \<and>
   socket_deadline 1
     (before_dial (new_events stub_world (fst (sendQueryQUIC stub_env live_ctx stub_addr stub_world))))
     = Some 5000 \<and>
   socket_deadline 1
     (before_dial (new_events stub_world
        (fst (sendQueryQUIC stub_env (live_ctx\<lparr>ctx_Deadline := None\<rparr>) stub_addr stub_world))))
     = None"
proof -
  have t: "before_dial (new_events stub_world (fst (sendQueryQUIC stub_env live_ctx stub_addr stub_world)))
     = [EvResolveUDPAddr ''dns.example:853'', EvListenUDP \<lparr>IP = [0, 0, 0, 0], Port = 0\<rparr> (Inr 1),
        EvSplitHostPort ''dns.example:853'', EvSetDeadline 1 5000,
        EvPack \<lparr>Id_msg = 0, Fields = [1, 0, 0, 1]\<rparr>, EvLogQuery [0, 0, 1, 0, 0, 1]]"
    unfolding stub_send
    by (simp add: new_events_def before_dial_def stub_world_def)
  have d: "ctx_Deadline live_ctx = Some 5000"
    by (simp add: live_ctx_def)
  from C6_context_deadline_on_socket [OF stub_resolve(1) stub_listen(1) stub_split(1),
      of stub_world live_ctx]
  have a: "socket_deadline 1
     (before_dial (new_events stub_world (fst (sendQueryQUIC stub_env live_ctx stub_addr stub_world))))
     = Some 5000"
    by (simp only: d)
  from C6_context_deadline_on_socket [OF stub_resolve(1) stub_listen(1) stub_split(1),
      of stub_world "live_ctx\<lparr>ctx_Deadline := None\<rparr>"]
  have b: "socket_deadline 1
     (before_dial (new_events stub_world
        (fst (sendQueryQUIC stub_env (live_ctx\<lparr>ctx_Deadline := None\<rparr>) stub_addr stub_world))))
     = None"
    by simp
  from d t a b show ?thesis
    by (intro conjI)
qed




text \<open>
  C8 against the code. The specification asks that the UDP socket and the QUIC
  connection of a query be closed once the exchange has reached a terminal state. No
  run of \<open>queryQUIC\<close> does so: on no path, successful or failing, is a call made that
  closes a UDP socket or a QUIC connection. So every run that got as far as binding its
  socket ends with that socket still open, and with the connection still open if it
  was dialed.
\<close>
theorem C8_socket_and_connection_never_closed:
  "filter is_release (new_events w (fst (queryQUIC env ctx addr w))) = [] \<and>
   (\<forall>ua c.
      ctx_Err ctx = None \<and>
      ResolveUDPAddr env (Address addr) = Inr ua \<and>
      ListenUDP env \<lparr>IP = IPv4zero, Port = 0\<rparr> = Inr c \<longrightarrow>
      \<not> resources_released (new_events w (fst (queryQUIC env ctx addr w))))"
proof -
  have none: "filter is_release (new_events w (fst (queryQUIC env ctx addr w))) = []"
    unfolding queryQUIC_events
    by (simp add: sendQueryQUIC_no_release split: option.splits)
  have "\<not> resources_released (new_events w (fst (queryQUIC env ctx addr w)))"
    if "ctx_Err ctx = None" and "ResolveUDPAddr env (Address addr) = Inr ua"
      and "ListenUDP env \<lparr>IP = IPv4zero, Port = 0\<rparr> = Inr c" for ua c
  proof -
    have "EvListenUDP \<lparr>IP = IPv4zero, Port = 0\<rparr> (Inr c)
            \<in> set (new_events w (fst (queryQUIC env ctx addr w)))"
      unfolding queryQUIC_events
      using that(1) sendQueryQUIC_listen_event [OF that(2,3), of w ctx]
      by simp
    with none show ?thesis
      by (rule not_released)
  qed
  with none show ?thesis
    by blast
qed

theorem C8_socket_and_connection_never_closed_witness:
  "ctx_Err live_ctx = None \<and>
   ResolveUDPAddr stub_env (Address stub_addr) = Inr \<lparr>IP = [192, 0, 2, 53], Port = 853\<rparr> \<and>
   ListenUDP stub_env \<lparr>IP = IPv4zero, Port = 0\<rparr> = Inr 1 \<and>
   filter is_network_step (new_events stub_world (fst (queryQUIC stub_env live_ctx stub_addr stub_world)))
     = [EvResolveUDPAddr ''dns.example:853'',
        EvListenUDP \<lparr>IP = [0, 0, 0, 0], Port = 0\<rparr> (Inr 1),
        EvDial 1 \<lparr>IP = [192, 0, 2, 53], Port = 853\<rparr>
          \<lparr>NextProtos = [''doq''], ServerName = ''dns.example''\<rparr> quic_Config_default (Inr 2),
        EvOpenStream 2 (Inr 3),
        EvStreamWrite 3 [0, 0, 1, 0, 0, 1],
        EvStreamClose 3,
        EvReadFull 3 1024] \<and>
   filter is_release (new_events stub_world (fst (queryQUIC stub_env live_ctx stub_addr stub_world))) = [] \<and>
   \<not> resources_released (new_events stub_world (fst (queryQUIC stub_env live_ctx stub_addr stub_world)))"
proof -
  have x: "ctx_Err live_ctx = None"
    by (simp add: live_ctx_def)
  have n: "filter is_network_step
      (new_events stub_world (fst (queryQUIC stub_env live_ctx stub_addr stub_world)))
     = [EvResolveUDPAddr ''dns.example:853'',
        EvListenUDP \<lparr>IP = [0, 0, 0, 0], Port = 0\<rparr> (Inr 1),
        EvDial 1 \<lparr>IP = [192, 0, 2, 53], Port = 853\<rparr>
          \<lparr>NextProtos = [''doq''], ServerName = ''dns.example''\<rparr> quic_Config_default (Inr 2),
        EvOpenStream 2 (Inr 3),
        EvStreamWrite 3 [0, 0, 1, 0, 0, 1],
        EvStreamClose 3,
        EvReadFull 3 1024]"
    unfolding stub_query_events
    by simp
  from x stub_resolve(1) stub_listen(1)
    C8_socket_and_connection_never_closed [of stub_world stub_env live_ctx stub_addr]
  have "filter is_release
      (new_events stub_world (fst (queryQUIC stub_env live_ctx stub_addr stub_world))) = [] \<and>
    \<not> resources_released
      (new_events stub_world (fst (queryQUIC stub_env live_ctx stub_addr stub_world)))"
    by blast
  with x stub_resolve(1) stub_listen(1) n show ?thesis
    by (intro conjI) blast+
qed

text \<open>
  C9. The response phase makes one read of 1024 bytes and ignores what the read
  reports: whether the stream filled the buffer or ended early (with \<open>EOF\<close> or any
  other error), the 1024-byte buffer, holding the bytes that arrived followed by the
  zeros it was created with, is handed to \<^verbatim>\<open>Unpack\<close>, and the result of the phase is the
  result of \<^verbatim>\<open>Unpack\<close>. The only error the phase can return is therefore the one
  \<^verbatim>\<open>Unpack\<close> returned; the error of the read never reaches the caller.
\<close>
theorem C9_read_error_discarded:
  "(let data = fst (StreamIncoming env s);
        buffer = take 1024 data @ replicate (1024 - length data) 0
    in ReadFull (StreamIncoming env s) (replicate 1024 0) =
         (min 1024 (length data),
          (if 1024 \<le> length data then None
           else if snd (StreamIncoming env s) = EOF \<and> 0 < length data then Some ErrUnexpectedEOF
           else Some (snd (StreamIncoming env s))),
          buffer) \<and>
       length buffer = 1024 \<and>
       recvResponseQUIC env ctx addr (Some s) t0 raw w =
         (w\<lparr>trace := trace w @ [EvReadFull s 1024, EvUnpack buffer]\<rparr>, Unpack env buffer))"
  by (auto simp: Let_def recvResponseQUIC_closed ReadFull_def min_def)

text \<open>
  C10. Once address resolution, the binding of the UDP socket and the splitting of
  host and port have succeeded, the caller's query message comes back from
  \<open>sendQueryQUIC\<close> (and from \<open>queryQUIC\<close>, when the context was live) with its ID set to
  0 and nothing else changed, whatever the later steps (serialization, dial, opening
  the stream) answer: the write is not undone when one of them fails.
\<close>
theorem C10_query_id_zeroed_even_on_failure:
  assumes "ResolveUDPAddr env (Address addr) = Inr ua"
    and "ListenUDP env \<lparr>IP = IPv4zero, Port = 0\<rparr> = Inr c"
    and "SplitHostPort env (Address addr) = Inr hp"
  shows "query (fst (sendQueryQUIC env ctx addr w)) = (query w)\<lparr>Id_msg := 0\<rparr> \<and>
         (ctx_Err ctx = None \<longrightarrow>
            query (fst (queryQUIC env ctx addr w)) = (query w)\<lparr>Id_msg := 0\<rparr>)"
proof -
  have send: "query (fst (sendQueryQUIC env ctx addr w)) = (query w)\<lparr>Id_msg := 0\<rparr>"
    using assms
    by (auto simp: sendQueryQUIC_def Let_def emit_def split: sum.splits option.splits prod.splits)
  have "query (fst (queryQUIC env ctx addr w)) = query (fst (sendQueryQUIC env ctx addr w))"
    if "ctx_Err ctx = None"
    using that
    by (simp add: queryQUIC_def recvResponseQUIC_query split: prod.splits option.splits)
  with send show ?thesis by simp
qed

theorem C10_query_id_zeroed_even_on_failure_witness:
  "Id_msg (query stub_world) = 0xBEEF \<and>
   res_err (snd (sendQueryQUIC env_dial_fails live_ctx stub_addr stub_world)) = Some DialError \<and>
   query (fst (sendQueryQUIC env_dial_fails live_ctx stub_addr stub_world))
     = \<lparr>Id_msg = 0, Fields = [1, 0, 0, 1]\<rparr>"
proof -
  have e: "res_err (snd (sendQueryQUIC env_dial_fails live_ctx stub_addr stub_world)) = Some DialError"
    by (simp add: sendQueryQUIC_def Let_def emit_def env_dial_fails_def stub_env_def
        stub_Pack_def stub_SplitHostPort_def stub_addr_def live_ctx_def)
  from e C10_query_id_zeroed_even_on_failure [OF stub_resolve(3) stub_listen(3) stub_split(3),
      of live_ctx stub_world]
  show ?thesis
    by (simp add: stub_world_def stub_query_def)
qed

end
